theory Spec2Isabelle
  imports Complex_Main "HOL-Library.Word"
begin

section \<open>The RealSense camera wrapper (hardware/camera.py)\<close>

text \<open>
  A shallow embedding of the class \<^verbatim>\<open>RealSenseCamera\<close>. The object is a record that every
  method takes and returns; exceptions are values of the type \<open>error\<close>; the logger and the
  calls into \<^verbatim>\<open>pyrealsense2\<close> are collected, in program order, in a list of effects. What the
  driver answers (the attached devices, the outcome of \<^verbatim>\<open>pipeline.start\<close>, the frames) is an
  input of the method that asks for it.
\<close>

subsection \<open>Driver values\<close>

text \<open>A device as the driver context lists it: the two \<^verbatim>\<open>get_info\<close> fields that are read.\<close>

record rs_device =
  info_serial_number :: string
  info_name :: string

text \<open>The dictionary \<^verbatim>\<open>{'serial': ..., 'name': ...}\<close> built for each device.\<close>

record device =
  serial :: string
  name :: string

datatype stream = Depth | Color

datatype format = Z16 | RGB8

text \<open>
  \<^verbatim>\<open>rs.config()\<close>: the device enabled by \<^verbatim>\<open>enable_device\<close> and the streams requested by
  \<^verbatim>\<open>enable_stream\<close> (kind, width, height, format, frames per second), in call order.
\<close>

record config =
  enabled_device :: "string option"
  enabled_streams :: "(stream \<times> int \<times> int \<times> format \<times> int) list"

definition new_config :: config where
  "new_config = \<lparr>enabled_device = None, enabled_streams = []\<rparr>"

definition enable_device :: "string \<Rightarrow> config \<Rightarrow> config" where
  "enable_device s c = c\<lparr>enabled_device := Some s\<rparr>"

definition enable_stream :: "stream \<Rightarrow> int \<Rightarrow> int \<Rightarrow> format \<Rightarrow> int \<Rightarrow> config \<Rightarrow> config" where
  "enable_stream k w h f r c = c\<lparr>enabled_streams := enabled_streams c @ [(k, w, h, f, r)]\<rparr>"

text \<open>
  What a started pipeline reports (lines 58-61): the intrinsics of the colour stream profile
  and the depth scale of the first depth sensor. Their types are left open.
\<close>

record ('i, 's) profile =
  color_intrinsics :: 'i
  depth_scale :: 's

text \<open>
  The driver as \<^verbatim>\<open>connect\<close> sees it: the devices \<^verbatim>\<open>query_devices\<close> lists, and the outcome of
  \<^verbatim>\<open>pipeline.start(config)\<close>, either the exception's text or the active profile.
\<close>

record ('i, 's) driver =
  query_devices :: "rs_device list"
  pipeline_start :: "config \<Rightarrow> string + ('i, 's) profile"

text \<open>The handle \<^verbatim>\<open>rs.pipeline()\<close> returns.\<close>

datatype pipeline = Pipeline

subsection \<open>Exceptions, log records, effects\<close>

datatype error =
    NoDeviceFound              \<comment> \<open>line 33: \<^verbatim>\<open>RuntimeError("No RealSense devices found")\<close>\<close>
  | ConnectionFailed string    \<comment> \<open>line 56: \<^verbatim>\<open>RuntimeError("Could not connect to camera ...")\<close>\<close>
  | PipelineIsNone             \<comment> \<open>line 63: \<^verbatim>\<open>AttributeError\<close>, \<^verbatim>\<open>self.pipeline\<close> is \<^verbatim>\<open>None\<close>\<close>
  | DriverError string         \<comment> \<open>lines 63-67: an exception of the driver while waiting or aligning\<close>
  | ScaleIsNone                \<comment> \<open>line 69: \<^verbatim>\<open>TypeError\<close>, \<^verbatim>\<open>self.scale\<close> is \<^verbatim>\<open>None\<close>\<close>
  | AxisError                  \<comment> \<open>\<^verbatim>\<open>np.expand_dims\<close> with an axis beyond the rank\<close>

datatype level = INFO | WARNING | ERROR

text \<open>The five messages of \<^verbatim>\<open>connect\<close>, each with the values its f-string interpolates.\<close>

datatype message =
    NoDeviceIdSpecified string string          \<comment> \<open>line 37: selected serial, its name\<close>
  | RequestedDeviceNotFound string "string list" \<comment> \<open>line 42: requested id, available serials\<close>
  | UsingFirstAvailable string string          \<comment> \<open>line 44: selected serial, its name\<close>
  | SuccessfullyConnected string               \<comment> \<open>line 53: device id\<close>
  | FailedToStartPipeline string               \<comment> \<open>line 55: the driver's exception\<close>

datatype driver_call =
    QueryDevices
  | NewPipeline
  | NewConfig
  | EnableDevice string
  | EnableStream stream int int format int
  | PipelineStart config

datatype effect = Log level message | Driver driver_call

fun is_warning :: "effect \<Rightarrow> bool" where
  "is_warning (Log WARNING m) = True"
| "is_warning e = False"

fun is_pipeline_call :: "effect \<Rightarrow> bool" where
  "is_pipeline_call (Driver QueryDevices) = False"
| "is_pipeline_call (Driver c) = True"
| "is_pipeline_call (Log l m) = False"

subsection \<open>The camera object\<close>

record ('i, 's) camera =
  device_id :: "string option"
  width :: int
  height :: int
  fps :: int
  pipeline :: "pipeline option"
  scale :: "'s option"
  intrinsics :: "'i option"

text \<open>\<^verbatim>\<open>__init__\<close>; the defaults of its parameters are \<open>None\<close>, 640, 480 and 30.\<close>

definition init :: "string option \<Rightarrow> int \<Rightarrow> int \<Rightarrow> int \<Rightarrow> ('i, 's) camera" where
  "init did w h f =
     \<lparr>device_id = did, width = w, height = h, fps = f,
      pipeline = None, scale = None, intrinsics = None\<rparr>"

text \<open>
  \<^verbatim>\<open>str(self.device_id)\<close>: the identifier is a string, on which \<^verbatim>\<open>str\<close> is the identity;
  \<^verbatim>\<open>str(None)\<close> is the text \<^verbatim>\<open>None\<close>.
\<close>

fun str :: "string option \<Rightarrow> string" where
  "str None = ''None''"
| "str (Some s) = s"

text \<open>\<^verbatim>\<open>get_available_devices\<close>: the loop appends one dictionary per device.\<close>

fun available_loop :: "rs_device list \<Rightarrow> device list \<Rightarrow> device list" where
  "available_loop [] available_devices = available_devices"
| "available_loop (dev # devices) available_devices =
     available_loop devices
       (available_devices @ [\<lparr>serial = info_serial_number dev, name = info_name dev\<rparr>])"

definition get_available_devices :: "('i, 's) driver \<Rightarrow> device list" where
  "get_available_devices drv = available_loop (query_devices drv) []"

text \<open>
  Lines 34-44 of \<^verbatim>\<open>connect\<close>: the choice of the device, given the non-empty list of
  available devices and its first element. It returns the object and what was logged.
\<close>

definition select_device ::
  "device list \<Rightarrow> device \<Rightarrow> ('i, 's) camera \<Rightarrow> ('i, 's) camera \<times> effect list" where
  "select_device available_devices first cam =
     (case device_id cam of
        None \<Rightarrow>
          (cam\<lparr>device_id := Some (serial first)\<rparr>,
           [Log INFO (NoDeviceIdSpecified (serial first) (name first))])
      | Some i \<Rightarrow>
          (let device_serials = map serial available_devices in
           if str (device_id cam) \<notin> set device_serials
           then (cam\<lparr>device_id := Some (serial first)\<rparr>,
                 [Log WARNING (RequestedDeviceNotFound i device_serials),
                  Log INFO (UsingFirstAvailable (serial first) (name first))])
           else (cam, [])))"

text \<open>Lines 47-50: the configuration handed to \<^verbatim>\<open>pipeline.start\<close>.\<close>

definition make_config :: "('i, 's) camera \<Rightarrow> config" where
  "make_config cam =
     enable_stream Color (width cam) (height cam) RGB8 (fps cam)
       (enable_stream Depth (width cam) (height cam) Z16 (fps cam)
          (enable_device (str (device_id cam)) new_config))"

definition config_calls :: "('i, 's) camera \<Rightarrow> effect list" where
  "config_calls cam =
     [Driver NewPipeline, Driver NewConfig,
      Driver (EnableDevice (str (device_id cam))),
      Driver (EnableStream Depth (width cam) (height cam) Z16 (fps cam)),
      Driver (EnableStream Color (width cam) (height cam) RGB8 (fps cam)),
      Driver (PipelineStart (make_config cam))]"

text \<open>
  \<^verbatim>\<open>connect\<close>. The result is the exception raised or \<open>()\<close>, the object as the call leaves
  it, and the effects in program order.
\<close>

definition connect ::
  "('i, 's) driver \<Rightarrow> ('i, 's) camera \<Rightarrow> (error + unit) \<times> ('i, 's) camera \<times> effect list" where
  "connect drv cam =
     (let available_devices = get_available_devices drv in
      case available_devices of
        [] \<Rightarrow> (Inl NoDeviceFound, cam, [Driver QueryDevices])
      | first # rest \<Rightarrow>
          (let (cam1, logged) = select_device available_devices first cam;
               cam2 = cam1\<lparr>pipeline := Some Pipeline\<rparr>;
               effects = [Driver QueryDevices] @ logged @ config_calls cam2
           in case pipeline_start drv (make_config cam2) of
                Inr cfg \<Rightarrow>
                  (Inr (),
                   cam2\<lparr>intrinsics := Some (color_intrinsics cfg),
                        scale := Some (depth_scale cfg)\<rparr>,
                   effects @ [Log INFO (SuccessfullyConnected (str (device_id cam2)))])
              | Inl e \<Rightarrow>
                  (Inl (ConnectionFailed e), cam2,
                   effects @ [Log ERROR (FailedToStartPipeline e)])))"

subsection \<open>Frames and arrays\<close>

text \<open>
  A video frame of the driver: its height, its width and its buffer. \<^verbatim>\<open>get_data()\<close> exposes
  the buffer as an array of shape (height, width) for a \<^verbatim>\<open>z16\<close> frame and of shape
  (height, width, 3) for an \<^verbatim>\<open>rgb8\<close> frame.
\<close>

record 'a video_frame =
  frame_height :: nat
  frame_width :: nat
  frame_data :: "'a list"

text \<open>A numpy array: its shape and its elements in row-major order.\<close>

record 'a ndarray =
  shape :: "nat list"
  elems :: "'a list"

fun get_data :: "format \<Rightarrow> 'a video_frame \<Rightarrow> 'a ndarray" where
  "get_data Z16 f = \<lparr>shape = [frame_height f, frame_width f], elems = frame_data f\<rparr>"
| "get_data RGB8 f = \<lparr>shape = [frame_height f, frame_width f, 3], elems = frame_data f\<rparr>"

text \<open>
  What lines 63-67 obtain from the driver: the colour frame and the depth frame of the
  frame set that \<^verbatim>\<open>rs.align(rs.stream.color)\<close> produced.
\<close>

record aligned_frames =
  color_frame :: "8 word video_frame"
  aligned_depth_frame :: "16 word video_frame"

text \<open>The frame set \<^verbatim>\<open>pipeline.wait_for_frames()\<close> returns, each stream on its own grid.\<close>

record frameset =
  fs_color :: "8 word video_frame"
  fs_depth :: "16 word video_frame"

text \<open>
  Which depth value the alignment puts at a row and a column of the colour grid, given the
  two frames: the geometry of the reprojection, which is the driver's.
\<close>

type_synonym reprojection =
  "16 word video_frame \<Rightarrow> 8 word video_frame \<Rightarrow> nat \<Rightarrow> nat \<Rightarrow> 16 word"

text \<open>
  Modelled from the spec: \<^verbatim>\<open>rs.align(rs.stream.color).process(frames)\<close> (lines 64-65), a
  function of pyrealsense2 that is not part of this repository. By sections 3 and 4.3 of the
  specification the depth frame is reprojected into the pixel grid of the colour frame, the
  reference of the alignment: the aligned depth frame has one value for each pixel of the
  colour frame, row by row, and the colour frame is passed on as it is.
\<close>

definition align_process :: "reprojection \<Rightarrow> frameset \<Rightarrow> aligned_frames" where
  "align_process reproject frames =
     \<lparr>color_frame = fs_color frames,
      aligned_depth_frame =
        \<lparr>frame_height = frame_height (fs_color frames),
         frame_width = frame_width (fs_color frames),
         frame_data =
           concat (map (\<lambda>i. map (\<lambda>j. reproject (fs_depth frames) (fs_color frames) i j)
                               [0..<frame_width (fs_color frames)])
                       [0..<frame_height (fs_color frames)])\<rparr>\<rparr>"

text \<open>
  Lines 63-67 on the side of the driver: the wait for a frame set, which may raise, and the
  alignment of the frame set that arrived.
\<close>

definition wait_and_align ::
  "reprojection \<Rightarrow> string + frameset \<Rightarrow> string + aligned_frames" where
  "wait_and_align reproject reply =
     (case reply of
        Inl e \<Rightarrow> Inl e
      | Inr frames \<Rightarrow> Inr (align_process reproject frames))"

text \<open>
  The arithmetic of numpy on \<^verbatim>\<open>float32\<close> is a parameter: the conversion of a raw 16-bit
  value (\<^verbatim>\<open>dtype=np.float32\<close>) and the product of an element with the scale (\<^verbatim>\<open>*=\<close>).
\<close>

record ('f, 's) numpy =
  float32 :: "16 word \<Rightarrow> 'f"
  multiply :: "'f \<Rightarrow> 's \<Rightarrow> 'f"

definition asarray_float32 :: "('f, 's) numpy \<Rightarrow> 16 word ndarray \<Rightarrow> 'f ndarray" where
  "asarray_float32 np a = \<lparr>shape = shape a, elems = map (float32 np) (elems a)\<rparr>"

definition imul :: "('f, 's) numpy \<Rightarrow> 'f ndarray \<Rightarrow> 's \<Rightarrow> 'f ndarray" where
  "imul np a k = a\<lparr>elems := map (\<lambda>x. multiply np x k) (elems a)\<rparr>"

text \<open>\<^verbatim>\<open>np.expand_dims(a, axis)\<close> for an axis that is not negative.\<close>

definition expand_dims :: "'a ndarray \<Rightarrow> nat \<Rightarrow> error + 'a ndarray" where
  "expand_dims a axis =
     (if axis > length (shape a) then Inl AxisError
      else Inr (a\<lparr>shape := take axis (shape a) @ 1 # drop axis (shape a)\<rparr>))"

text \<open>The dictionary \<^verbatim>\<open>{'rgb': ..., 'aligned_depth': ...}\<close>.\<close>

record 'f image_bundle =
  rgb :: "8 word ndarray"
  aligned_depth :: "'f ndarray"

text \<open>
  \<^verbatim>\<open>get_image_bundle\<close>. The second argument is the object, which the method only reads; the
  third is what the driver delivers at lines 63-67, an exception's text or the aligned frames.
\<close>

definition get_image_bundle ::
  "('f, 's) numpy \<Rightarrow> ('i, 's) camera \<Rightarrow> string + aligned_frames \<Rightarrow> error + 'f image_bundle" where
  "get_image_bundle np cam reply =
     (case pipeline cam of
        None \<Rightarrow> Inl PipelineIsNone
      | Some p \<Rightarrow>
          (case reply of
             Inl e \<Rightarrow> Inl (DriverError e)
           | Inr frames \<Rightarrow>
               (let depth_image = asarray_float32 np (get_data Z16 (aligned_depth_frame frames))
                in case scale cam of
                     None \<Rightarrow> Inl ScaleIsNone
                   | Some k \<Rightarrow>
                       (let depth_image = imul np depth_image k;
                            color_image = get_data RGB8 (color_frame frames)
                        in case expand_dims depth_image 2 of
                             Inl e \<Rightarrow> Inl e
                           | Inr depth_image \<Rightarrow>
                               Inr \<lparr>rgb = color_image, aligned_depth = depth_image\<rparr>))))"

text \<open>
  \<^verbatim>\<open>plot_image_bundle\<close>: it fetches a bundle and hands it to matplotlib; the drawing is not
  modelled.
\<close>

definition plot_image_bundle ::
  "('f, 's) numpy \<Rightarrow> ('i, 's) camera \<Rightarrow> string + aligned_frames \<Rightarrow> error + unit" where
  "plot_image_bundle np cam reply =
     (case get_image_bundle np cam reply of Inl e \<Rightarrow> Inl e | Inr images \<Rightarrow> Inr ())"

subsection \<open>Sequences of method calls\<close>

text \<open>The four methods of the class, each with what the driver answers during the call.\<close>

datatype ('i, 's) call =
    CallGetAvailableDevices "('i, 's) driver"
  | CallConnect "('i, 's) driver"
  | CallGetImageBundle "string + aligned_frames"
  | CallPlotImageBundle "string + aligned_frames"

text \<open>One call: whether it raised, and the object afterwards.\<close>

fun step ::
  "('f, 's) numpy \<Rightarrow> ('i, 's) camera \<Rightarrow> ('i, 's) call \<Rightarrow> (error + unit) \<times> ('i, 's) camera" where
  "step np cam (CallGetAvailableDevices drv) = (Inr (), cam)"
| "step np cam (CallConnect drv) = (case connect drv cam of (r, cam', effects) \<Rightarrow> (r, cam'))"
| "step np cam (CallGetImageBundle reply) =
     (case get_image_bundle np cam reply of Inl e \<Rightarrow> (Inl e, cam) | Inr b \<Rightarrow> (Inr (), cam))"
| "step np cam (CallPlotImageBundle reply) = (plot_image_bundle np cam reply, cam)"

fun run :: "('f, 's) numpy \<Rightarrow> ('i, 's) camera \<Rightarrow> ('i, 's) call list \<Rightarrow> ('i, 's) camera" where
  "run np cam [] = cam"
| "run np cam (c # cs) = run np (snd (step np cam c)) cs"

fun is_connect :: "('i, 's) call \<Rightarrow> bool" where
  "is_connect (CallConnect drv) = True"
| "is_connect c = False"

text \<open>No call of the sequence is a \<^verbatim>\<open>connect\<close> that returned normally.\<close>

fun no_successful_connect ::
  "('f, 's) numpy \<Rightarrow> ('i, 's) camera \<Rightarrow> ('i, 's) call list \<Rightarrow> bool" where
  "no_successful_connect np cam [] = True"
| "no_successful_connect np cam (c # cs) =
     ((if is_connect c then isl (fst (step np cam c)) else True) \<and>
      no_successful_connect np (snd (step np cam c)) cs)"

subsection \<open>Observations on a call of connect\<close>

text \<open>The serials passed to \<^verbatim>\<open>config.enable_device\<close>, in call order.\<close>

fun selected_devices :: "effect list \<Rightarrow> string list" where
  "selected_devices [] = []"
| "selected_devices (Driver (EnableDevice s) # effects) = s # selected_devices effects"
| "selected_devices (e # effects) = selected_devices effects"

text \<open>
  Lines 51-56 alone: what \<^verbatim>\<open>connect\<close> returns once the device is chosen, which is the
  outcome of \<^verbatim>\<open>pipeline.start\<close> on the configuration of the object.
\<close>

definition start_outcome :: "('i, 's) driver \<Rightarrow> ('i, 's) camera \<Rightarrow> error + unit" where
  "start_outcome drv cam =
     (case pipeline_start drv (make_config cam) of
        Inl e \<Rightarrow> Inl (ConnectionFailed e) | Inr cfg \<Rightarrow> Inr ())"

text \<open>
  Some \<^verbatim>\<open>connect\<close> of the sequence found a device attached, and so reached line 46, which
  assigns the pipeline field before the pipeline is started.
\<close>

fun pipeline_created :: "('i, 's) call list \<Rightarrow> bool" where
  "pipeline_created [] = False"
| "pipeline_created (CallConnect drv # cs) =
     (get_available_devices drv \<noteq> [] \<or> pipeline_created cs)"
| "pipeline_created (c # cs) = pipeline_created cs"

text \<open>
  The identifier a call leaves in the object: only \<^verbatim>\<open>connect\<close> assigns it, at lines 36
  and 43.
\<close>

fun device_id_after :: "('i, 's) camera \<Rightarrow> ('i, 's) call \<Rightarrow> string option" where
  "device_id_after cam (CallConnect drv) =
     (case get_available_devices drv of
        [] \<Rightarrow> device_id cam
      | d # ds \<Rightarrow>
          (case device_id cam of
             None \<Rightarrow> Some (serial d)
           | Some s \<Rightarrow> if s \<in> set (map serial (d # ds)) then Some s else Some (serial d)))"
| "device_id_after cam c = device_id cam"

subsection \<open>Example values\<close>

text \<open>
  An instance of the arithmetic (exact, on the reals), two devices, drivers that list none,
  one or two of them, a driver whose pipeline does not start, the camera with the default
  parameters, and a frame pair of one row and two columns.
\<close>

definition np_real :: "(real, real) numpy" where
  "np_real = \<lparr>float32 = (\<lambda>raw. real (unat raw)), multiply = (\<lambda>x k. x * k)\<rparr>"

definition dev111 :: rs_device where
  "dev111 = \<lparr>info_serial_number = ''111'', info_name = ''D405''\<rparr>"

definition dev222 :: rs_device where
  "dev222 = \<lparr>info_serial_number = ''222'', info_name = ''D435''\<rparr>"

definition millimetres :: "(unit, real) profile" where
  "millimetres = \<lparr>color_intrinsics = (), depth_scale = 1 / 1000\<rparr>"

definition drv_none :: "(unit, real) driver" where
  "drv_none = \<lparr>query_devices = [], pipeline_start = (\<lambda>c. Inr millimetres)\<rparr>"

definition drv_one :: "(unit, real) driver" where
  "drv_one = \<lparr>query_devices = [dev111], pipeline_start = (\<lambda>c. Inr millimetres)\<rparr>"

definition drv_two :: "(unit, real) driver" where
  "drv_two = \<lparr>query_devices = [dev111, dev222], pipeline_start = (\<lambda>c. Inr millimetres)\<rparr>"

definition drv_busy :: "(unit, real) driver" where
  "drv_busy = \<lparr>query_devices = [dev111], pipeline_start = (\<lambda>c. Inl ''busy'')\<rparr>"

definition cam_default :: "(unit, real) camera" where
  "cam_default = init None 640 480 30"

definition frames_1x2 :: aligned_frames where
  "frames_1x2 =
     \<lparr>color_frame = \<lparr>frame_height = 1, frame_width = 2, frame_data = [10, 20, 30, 40, 50, 60]\<rparr>,
      aligned_depth_frame = \<lparr>frame_height = 1, frame_width = 2, frame_data = [2000, 0]\<rparr>\<rparr>"

text \<open>
  A frame set whose depth frame has two rows and one column, and a reprojection that copies
  the depth value at the same row and column where the depth frame has one, and gives 0 (no
  depth) elsewhere.
\<close>

definition frames_raw :: frameset where
  "frames_raw =
     \<lparr>fs_color = \<lparr>frame_height = 1, frame_width = 2, frame_data = [10, 20, 30, 40, 50, 60]\<rparr>,
      fs_depth = \<lparr>frame_height = 2, frame_width = 1, frame_data = [2000, 1500]\<rparr>\<rparr>"

definition same_cell :: reprojection where
  "same_cell d c i j =
     (if i < frame_height d \<and> j < frame_width d
      then frame_data d ! (i * frame_width d + j) else 0)"

definition cam_streaming :: "(unit, real) camera" where
  "cam_streaming =
     \<lparr>device_id = Some ''111'', width = 640, height = 480, fps = 30,
      pipeline = Some Pipeline, scale = Some (1 / 1000), intrinsics = Some ()\<rparr>"

section \<open>Properties\<close>

subsection \<open>Auxiliary facts\<close>

lemmas example_defs =
  np_real_def dev111_def dev222_def millimetres_def drv_none_def drv_one_def drv_two_def
  drv_busy_def cam_default_def cam_streaming_def frames_1x2_def init_def

lemmas connect_defs =
  connect_def get_available_devices_def select_device_def make_config_def config_calls_def
  new_config_def enable_device_def enable_stream_def

lemmas bundle_defs =
  get_image_bundle_def plot_image_bundle_def asarray_float32_def imul_def expand_dims_def

lemma available_loop_map:
  "available_loop devs acc =
     acc @ map (\<lambda>dev. \<lparr>serial = info_serial_number dev, name = info_name dev\<rparr>) devs"
  by (induction devs arbitrary: acc) simp_all

lemma get_available_devices_map:
  "get_available_devices drv =
     map (\<lambda>dev. \<lparr>serial = info_serial_number dev, name = info_name dev\<rparr>) (query_devices drv)"
  by (simp add: get_available_devices_def available_loop_map)

lemma selected_devices_append [simp]:
  "selected_devices (xs @ ys) = selected_devices xs @ selected_devices ys"
  by (induction xs rule: selected_devices.induct) simp_all

lemma connect_empty:
  "get_available_devices drv = [] \<Longrightarrow>
   connect drv cam = (Inl NoDeviceFound, cam, [Driver QueryDevices])"
  by (simp add: connect_def)

text \<open>\<^verbatim>\<open>connect\<close> when a device is attached, in terms of the choice made at lines 34-44.\<close>

lemma connect_nonempty:
  assumes "get_available_devices drv = d # ds"
    and "select_device (d # ds) d cam = (cam1, logged)"
  shows "connect drv cam =
     (case pipeline_start drv (make_config cam1) of
        Inr cfg \<Rightarrow>
          (Inr (),
           cam1\<lparr>pipeline := Some Pipeline, intrinsics := Some (color_intrinsics cfg),
                 scale := Some (depth_scale cfg)\<rparr>,
           [Driver QueryDevices] @ logged @ config_calls cam1 @
           [Log INFO (SuccessfullyConnected (str (device_id cam1)))])
      | Inl e \<Rightarrow>
          (Inl (ConnectionFailed e), cam1\<lparr>pipeline := Some Pipeline\<rparr>,
           [Driver QueryDevices] @ logged @ config_calls cam1 @
           [Log ERROR (FailedToStartPipeline e)]))"
  using assms
  by (simp add: connect_def make_config_def config_calls_def split: sum.splits)

lemma config_calls_facts [simp]:
  "selected_devices (config_calls cam) = [str (device_id cam)]"
  "filter is_warning (config_calls cam) = []"
  by (simp_all add: config_calls_def)

lemma connect_scale:
  assumes "connect drv cam0 = (Inr u, cam, effects)"
  shows "\<exists>p. pipeline_start drv (make_config cam) = Inr p \<and> scale cam = Some (depth_scale p) \<and>
             intrinsics cam = Some (color_intrinsics p) \<and> pipeline cam = Some Pipeline"
proof (cases "get_available_devices drv")
  case Nil
  then show ?thesis using assms by (simp add: connect_def)
next
  case (Cons d ds)
  obtain cam1 logged where sel: "select_device (d # ds) d cam0 = (cam1, logged)"
    by (cases "select_device (d # ds) d cam0")
  show ?thesis
    using assms unfolding connect_nonempty [OF Cons sel]
    by (auto split: sum.splits simp: make_config_def)
qed

lemma step_not_connect:
  "\<not> is_connect c \<Longrightarrow> snd (step np cam c) = cam"
  by (cases c) (simp_all split: sum.splits)

lemma run_not_connect:
  "list_all (\<lambda>c. \<not> is_connect c) cs \<Longrightarrow> run np cam cs = cam"
  by (induction cs) (simp_all add: step_not_connect)

lemma get_image_bundle_ok:
  assumes "pipeline cam = Some p" and "scale cam = Some k"
  shows "get_image_bundle np cam (Inr frames) =
     Inr \<lparr>rgb = get_data RGB8 (color_frame frames),
          aligned_depth =
            \<lparr>shape = [frame_height (aligned_depth_frame frames),
                      frame_width (aligned_depth_frame frames), 1],
             elems = map (\<lambda>raw. multiply np (float32 np raw) k)
                       (frame_data (aligned_depth_frame frames))\<rparr>\<rparr>"
  using assms
  by (simp add: get_image_bundle_def asarray_float32_def imul_def expand_dims_def)

lemma get_image_bundle_Inr:
  assumes "get_image_bundle np cam reply = Inr b"
  shows "\<exists>p k frames. pipeline cam = Some p \<and> scale cam = Some k \<and> reply = Inr frames"
  using assms
  by (auto simp add: get_image_bundle_def split: option.splits sum.splits)

lemma connect_failed_scale:
  assumes "connect drv cam = (Inl e, cam', effects)"
  shows "scale cam' = scale cam"
proof (cases "get_available_devices drv")
  case Nil
  then show ?thesis using assms by (simp add: connect_def)
next
  case (Cons d ds)
  obtain cam1 logged where sel: "select_device (d # ds) d cam = (cam1, logged)"
    by (cases "select_device (d # ds) d cam")
  have "scale cam1 = scale cam"
    using sel by (auto simp add: select_device_def Let_def split: option.splits if_splits)
  then show ?thesis
    using assms unfolding connect_nonempty [OF Cons sel]
    by (auto split: sum.splits)
qed

lemma step_scale_unconnected:
  assumes "is_connect c \<longrightarrow> isl (fst (step np cam c))"
  shows "scale (snd (step np cam c)) = scale cam"
proof (cases c)
  case (CallConnect drv)
  obtain r cam' effects where c: "connect drv cam = (r, cam', effects)"
    by (cases "connect drv cam")
  with assms CallConnect obtain e where "r = Inl e"
    by (cases r) auto
  with c connect_failed_scale [of drv cam e cam' effects] CallConnect
  show ?thesis by simp
qed (simp_all split: sum.splits)

lemma run_scale_unconnected:
  "no_successful_connect np cam cs \<Longrightarrow> scale (run np cam cs) = scale cam"
proof (induction cs arbitrary: cam)
  case Nil
  then show ?case by simp
next
  case (Cons c cs)
  then have "scale (snd (step np cam c)) = scale cam"
    using step_scale_unconnected [of c np cam] by simp
  with Cons show ?case by simp
qed

lemma select_device_fields:
  assumes "select_device devs d cam = (cam1, logged)"
  shows "width cam1 = width cam \<and> height cam1 = height cam \<and> fps cam1 = fps cam \<and>
         pipeline cam1 = pipeline cam \<and>
         device_id cam1 =
           (case device_id cam of
              None \<Rightarrow> Some (serial d)
            | Some s \<Rightarrow> if s \<in> set (map serial devs) then Some s else Some (serial d))"
  using assms
  by (auto simp add: select_device_def Let_def split: option.splits if_splits)

lemma connect_fields:
  assumes "connect drv cam = (r, cam', effects)"
  shows "width cam' = width cam \<and> height cam' = height cam \<and> fps cam' = fps cam \<and>
         device_id cam' =
           (case get_available_devices drv of
              [] \<Rightarrow> device_id cam
            | d # ds \<Rightarrow>
                (case device_id cam of
                   None \<Rightarrow> Some (serial d)
                 | Some s \<Rightarrow>
                     if s \<in> set (map serial (d # ds)) then Some s else Some (serial d))) \<and>
         (pipeline cam \<noteq> None \<longrightarrow> pipeline cam' \<noteq> None)"
proof (cases "get_available_devices drv")
  case Nil
  then show ?thesis using assms by (simp add: connect_def)
next
  case (Cons d ds)
  obtain cam1 logged where sel: "select_device (d # ds) d cam = (cam1, logged)"
    by (cases "select_device (d # ds) d cam")
  show ?thesis
    using assms select_device_fields [OF sel] unfolding connect_nonempty [OF Cons sel] Cons
    by (auto split: sum.splits)
qed

lemma step_fields:
  "width (snd (step np cam c)) = width cam \<and> height (snd (step np cam c)) = height cam \<and>
   fps (snd (step np cam c)) = fps cam \<and>
   device_id (snd (step np cam c)) = device_id_after cam c \<and>
   (pipeline cam \<noteq> None \<longrightarrow> pipeline (snd (step np cam c)) \<noteq> None)"
proof (cases c)
  case (CallConnect drv)
  obtain r cam' effects where c: "connect drv cam = (r, cam', effects)"
    by (cases "connect drv cam")
  from connect_fields [OF c] c CallConnect show ?thesis by simp
qed (simp_all split: sum.splits)

lemma connect_pipeline:
  assumes "connect drv cam = (r, cam', effects)"
  shows "pipeline cam' =
           (if get_available_devices drv = [] then pipeline cam else Some Pipeline)"
proof (cases "get_available_devices drv")
  case Nil
  then show ?thesis using assms by (simp add: connect_def)
next
  case (Cons d ds)
  obtain cam1 logged where sel: "select_device (d # ds) d cam = (cam1, logged)"
    by (cases "select_device (d # ds) d cam")
  show ?thesis
    using assms unfolding connect_nonempty [OF Cons sel] Cons
    by (auto split: sum.splits)
qed

lemma step_pipeline:
  "pipeline (snd (step np cam c)) =
     (if pipeline_created [c] then Some Pipeline else pipeline cam)"
proof (cases c)
  case (CallConnect drv)
  obtain r cam' effects where c: "connect drv cam = (r, cam', effects)"
    by (cases "connect drv cam")
  from connect_pipeline [OF c] c CallConnect show ?thesis by simp
qed (simp_all split: sum.splits)

lemma pipeline_created_Cons:
  "pipeline_created (c # cs) = (pipeline_created [c] \<or> pipeline_created cs)"
  by (cases c) simp_all

lemma run_pipeline:
  "pipeline (run np cam cs) = (if pipeline_created cs then Some Pipeline else pipeline cam)"
proof (induction cs arbitrary: cam)
  case Nil
  show ?case by simp
next
  case (Cons c cs)
  have "pipeline (run np cam (c # cs)) =
          (if pipeline_created cs then Some Pipeline else pipeline (snd (step np cam c)))"
    using Cons [of "snd (step np cam c)"] by simp
  also have "\<dots> = (if pipeline_created (c # cs) then Some Pipeline else pipeline cam)"
    using step_pipeline [of np cam c] pipeline_created_Cons [of c cs] by simp
  finally show ?case .
qed

lemma length_aligned_depth:
  "length (frame_data (aligned_depth_frame (align_process reproject frames))) =
     frame_height (fs_color frames) * frame_width (fs_color frames)"
  by (simp add: align_process_def length_concat comp_def sum_list_triv)

lemma wait_and_align_Inr:
  "wait_and_align reproject reply = Inr aligned \<Longrightarrow>
   \<exists>frames. reply = Inr frames \<and> aligned = align_process reproject frames"
  by (cases reply) (simp_all add: wait_and_align_def)

lemma connect_streaming:
  "connect drv_one cam_default =
     (Inr (), cam_streaming,
      [Driver QueryDevices, Log INFO (NoDeviceIdSpecified ''111'' ''D405''),
       Driver NewPipeline, Driver NewConfig, Driver (EnableDevice ''111''),
       Driver (EnableStream Depth 640 480 Z16 30), Driver (EnableStream Color 640 480 RGB8 30),
       Driver (PipelineStart
         \<lparr>enabled_device = Some ''111'',
          enabled_streams = [(Depth, 640, 480, Z16, 30), (Color, 640, 480, RGB8, 30)]\<rparr>),
       Log INFO (SuccessfullyConnected ''111'')])"
  by (simp add: example_defs connect_defs)

subsection \<open>Selection of the device\<close>

text \<open>
  Claim C1. When devices are attached and none of them has the requested serial \<open>s\<close>,
  \<^verbatim>\<open>connect\<close> takes the device at index 0 of the enumeration: its serial becomes the
  identifier of the object and is the one serial enabled on the configuration. Exactly one
  record of level WARNING is logged, and it carries \<open>s\<close> and the list of the available
  serials. The call returns what starting the pipeline on that device returns: the mismatch
  itself never makes it fail.
\<close>

theorem connect_with_unknown_id:
  assumes "get_available_devices drv \<noteq> []"
    and "device_id cam = Some s"
    and "s \<notin> set (map serial (get_available_devices drv))"
    and "connect drv cam = (r, cam', effects)"
  shows "device_id cam' = Some (serial (get_available_devices drv ! 0)) \<and>
         selected_devices effects = [serial (get_available_devices drv ! 0)] \<and>
         filter is_warning effects =
           [Log WARNING (RequestedDeviceNotFound s (map serial (get_available_devices drv)))] \<and>
         r = start_outcome drv cam' \<and>
         r \<noteq> Inl NoDeviceFound"
proof -
  obtain d ds where devs: "get_available_devices drv = d # ds"
    using assms(1) by (cases "get_available_devices drv") auto
  have "s \<notin> set (map serial (d # ds))"
    using assms(3) devs by simp
  then have sel: "select_device (d # ds) d cam =
      (cam\<lparr>device_id := Some (serial d)\<rparr>,
       [Log WARNING (RequestedDeviceNotFound s (map serial (d # ds))),
        Log INFO (UsingFirstAvailable (serial d) (name d))])"
    using assms(2) by (simp add: select_device_def)
  show ?thesis
    using assms(4) unfolding connect_nonempty [OF devs sel] start_outcome_def devs
    by (auto split: sum.splits simp: make_config_def)
qed

theorem connect_with_unknown_id_witness:
  "get_available_devices drv_one \<noteq> [] \<and>
   ''999'' \<notin> set (map serial (get_available_devices drv_one)) \<and>
   fst (connect drv_one (init (Some ''999'') 640 480 30)) = Inr () \<and>
   device_id (fst (snd (connect drv_one (init (Some ''999'') 640 480 30)))) = Some ''111'' \<and>
   filter is_warning (snd (snd (connect drv_one (init (Some ''999'') 640 480 30)))) =
     [Log WARNING (RequestedDeviceNotFound ''999'' [''111''])]"
  using connect_with_unknown_id [of drv_one "init (Some ''999'') 640 480 30" "''999''"
      "fst (connect drv_one (init (Some ''999'') 640 480 30))"
      "fst (snd (connect drv_one (init (Some ''999'') 640 480 30)))"
      "snd (snd (connect drv_one (init (Some ''999'') 640 480 30)))"]
  by (simp add: example_defs connect_defs)

text \<open>
  Claim C7. When devices are attached and no identifier was given, \<^verbatim>\<open>connect\<close> takes the
  device at index 0 of the enumeration, logs the choice at level INFO and logs nothing at
  level WARNING.
\<close>

theorem connect_without_id:
  assumes "get_available_devices drv \<noteq> []"
    and "device_id cam = None"
    and "connect drv cam = (r, cam', effects)"
  shows "device_id cam' = Some (serial (get_available_devices drv ! 0)) \<and>
         selected_devices effects = [serial (get_available_devices drv ! 0)] \<and>
         filter is_warning effects = [] \<and>
         Log INFO (NoDeviceIdSpecified (serial (get_available_devices drv ! 0))
                     (name (get_available_devices drv ! 0))) \<in> set effects \<and>
         r = start_outcome drv cam'"
proof -
  obtain d ds where devs: "get_available_devices drv = d # ds"
    using assms(1) by (cases "get_available_devices drv") auto
  have sel: "select_device (d # ds) d cam =
      (cam\<lparr>device_id := Some (serial d)\<rparr>,
       [Log INFO (NoDeviceIdSpecified (serial d) (name d))])"
    using assms(2) by (simp add: select_device_def)
  show ?thesis
    using assms(3) unfolding connect_nonempty [OF devs sel] start_outcome_def devs
    by (auto split: sum.splits simp: make_config_def)
qed

theorem connect_without_id_witness:
  "get_available_devices drv_one \<noteq> [] \<and>
   device_id cam_default = None \<and>
   device_id (fst (snd (connect drv_one cam_default))) = Some ''111'' \<and>
   selected_devices (snd (snd (connect drv_one cam_default))) = [''111''] \<and>
   filter is_warning (snd (snd (connect drv_one cam_default))) = []"
  using connect_without_id [of drv_one cam_default "Inr ()" cam_streaming
      "snd (snd (connect drv_one cam_default))"]
  by (simp add: connect_streaming) (simp add: example_defs connect_defs)

text \<open>
  Claim C8. When the requested serial \<open>s\<close> is among the enumerated serials, \<^verbatim>\<open>connect\<close>
  keeps \<open>s\<close>: it is the one serial enabled on the configuration, the identifier of the
  object is unchanged, and no record of level WARNING is logged.
\<close>

theorem connect_with_matching_id:
  assumes "device_id cam = Some s"
    and "s \<in> set (map serial (get_available_devices drv))"
    and "connect drv cam = (r, cam', effects)"
  shows "device_id cam' = Some s \<and>
         selected_devices effects = [s] \<and>
         filter is_warning effects = [] \<and>
         r = start_outcome drv cam'"
proof -
  obtain d ds where devs: "get_available_devices drv = d # ds"
    using assms(2) by (cases "get_available_devices drv") auto
  have "s \<in> set (map serial (d # ds))"
    using assms(2) devs by simp
  then have sel: "select_device (d # ds) d cam = (cam, [])"
    using assms(1) by (simp add: select_device_def)
  show ?thesis
    using assms(1,3) unfolding connect_nonempty [OF devs sel] start_outcome_def
    by (auto split: sum.splits simp: make_config_def)
qed

theorem connect_with_matching_id_witness:
  "''222'' \<in> set (map serial (get_available_devices drv_two)) \<and>
   device_id (fst (snd (connect drv_two (init (Some ''222'') 640 480 30)))) = Some ''222'' \<and>
   selected_devices (snd (snd (connect drv_two (init (Some ''222'') 640 480 30)))) = [''222''] \<and>
   filter is_warning (snd (snd (connect drv_two (init (Some ''222'') 640 480 30)))) = []"
  using connect_with_matching_id [of "init (Some ''222'') 640 480 30" "''222''" drv_two
      "fst (connect drv_two (init (Some ''222'') 640 480 30))"
      "fst (snd (connect drv_two (init (Some ''222'') 640 480 30)))"
      "snd (snd (connect drv_two (init (Some ''222'') 640 480 30)))"]
  by (simp add: example_defs connect_defs)

subsection \<open>No device attached\<close>

text \<open>
  Claim C3. When the enumeration is empty, \<^verbatim>\<open>connect\<close> raises the error of line 33
  (no device found); the only call into the driver is the enumeration itself, so no
  pipeline is created, configured or started, and the pipeline field is not assigned.
\<close>

theorem connect_no_device_fails:
  assumes "get_available_devices drv = []"
    and "connect drv cam = (r, cam', effects)"
  shows "r = Inl NoDeviceFound \<and> filter is_pipeline_call effects = [] \<and>
         effects = [Driver QueryDevices] \<and> pipeline cam' = pipeline cam"
  using assms by (auto simp add: connect_empty)

theorem connect_no_device_fails_witness:
  "get_available_devices drv_none = [] \<and>
   connect drv_none cam_default = (Inl NoDeviceFound, cam_default, [Driver QueryDevices]) \<and>
   filter is_pipeline_call [Driver QueryDevices] = [] \<and>
   pipeline cam_default = None"
  using connect_no_device_fails [of drv_none cam_default "Inl NoDeviceFound" cam_default
      "[Driver QueryDevices]"]
  by (simp add: example_defs connect_defs)

text \<open>
  Claim C10. When \<^verbatim>\<open>connect\<close> fails because the enumeration is empty, the object is left as
  it was: the identifier, the pipeline, the scale and the intrinsics (and every other field)
  keep the values they had before the call.
\<close>

theorem connect_no_device_keeps_state:
  assumes "get_available_devices drv = []"
    and "connect drv cam = (r, cam', effects)"
  shows "cam' = cam \<and> device_id cam' = device_id cam \<and> pipeline cam' = pipeline cam \<and>
         scale cam' = scale cam \<and> intrinsics cam' = intrinsics cam"
  using assms by (simp add: connect_empty)

theorem connect_no_device_keeps_state_witness:
  "get_available_devices drv_none = [] \<and>
   connect drv_none cam_streaming = (Inl NoDeviceFound, cam_streaming, [Driver QueryDevices]) \<and>
   device_id cam_streaming = Some ''111'' \<and> pipeline cam_streaming = Some Pipeline \<and>
   scale cam_streaming = Some (1 / 1000) \<and> intrinsics cam_streaming = Some ()"
  using connect_no_device_keeps_state [of drv_none cam_streaming "Inl NoDeviceFound"
      cam_streaming "[Driver QueryDevices]"]
  by (simp add: example_defs connect_defs)

subsection \<open>Acquisition\<close>

text \<open>
  Claim C2. After a \<^verbatim>\<open>connect\<close> that returned normally, the scale of the object is the depth
  scale the driver reported for the started pipeline. Calls other than \<^verbatim>\<open>connect\<close> leave the
  object as it is, however many of them are made, and a bundle acquired after them holds,
  for each raw depth value, the product of its conversion with that scale: one
  multiplication per element, by the scale of connect time. With the scale 1/1000 the raw
  value 2000 gives 2.
\<close>

theorem depth_scaled_once:
  assumes "connect drv cam0 = (Inr u, cam, effects)"
    and "list_all (\<lambda>c. \<not> is_connect c) cs"
  shows "\<exists>p. pipeline_start drv (make_config cam) = Inr p \<and>
           scale cam = Some (depth_scale p) \<and>
           run np cam cs = cam \<and>
           get_image_bundle np (run np cam cs) (Inr frames) =
             Inr \<lparr>rgb = get_data RGB8 (color_frame frames),
                  aligned_depth =
                    \<lparr>shape = [frame_height (aligned_depth_frame frames),
                              frame_width (aligned_depth_frame frames), 1],
                     elems = map (\<lambda>raw. multiply np (float32 np raw) (depth_scale p))
                               (frame_data (aligned_depth_frame frames))\<rparr>\<rparr>"
proof -
  obtain p where p: "pipeline_start drv (make_config cam) = Inr p"
    "scale cam = Some (depth_scale p)" "pipeline cam = Some Pipeline"
    using connect_scale [OF assms(1)] by blast
  have "run np cam cs = cam"
    using assms(2) by (rule run_not_connect)
  then show ?thesis
    using p get_image_bundle_ok [OF p(3) p(2)] by simp
qed

theorem depth_scaled_once_witness:
  "connect drv_one cam_default =
     (Inr (), cam_streaming, snd (snd (connect drv_one cam_default))) \<and>
   list_all (\<lambda>c. \<not> is_connect c)
     [CallGetImageBundle (Inr frames_1x2), CallPlotImageBundle (Inl ''timeout'') ::
        (unit, real) call] \<and>
   depth_scale millimetres = 1 / 1000 \<and>
   get_image_bundle np_real
     (run np_real cam_streaming
        [CallGetImageBundle (Inr frames_1x2), CallPlotImageBundle (Inl ''timeout'')])
     (Inr frames_1x2) =
     Inr \<lparr>rgb = \<lparr>shape = [1, 2, 3], elems = [10, 20, 30, 40, 50, 60]\<rparr>,
          aligned_depth = \<lparr>shape = [1, 2, 1], elems = [2, 0]\<rparr>\<rparr>"
  using depth_scaled_once [of drv_one cam_default "()" cam_streaming
      "snd (snd (connect drv_one cam_default))"
      "[CallGetImageBundle (Inr frames_1x2), CallPlotImageBundle (Inl ''timeout'')]"
      np_real frames_1x2]
  by (simp add: connect_streaming) (simp add: example_defs bundle_defs)

text \<open>
  Claim C5. Every bundle that \<^verbatim>\<open>get_image_bundle\<close> returns for a frame set of the driver has
  a depth image of rank 3 whose last dimension is 1 and whose height and width are those of
  the colour image, whatever the sizes of the two frames of the sensor: the frame set
  arrived, the colour image has the shape of the colour frame with 3 channels, and the depth
  image has one element for each pixel of that grid.
\<close>

theorem bundle_shapes:
  assumes "get_image_bundle np cam (wait_and_align reproject reply) = Inr b"
  shows "\<exists>frames. reply = Inr frames \<and>
           shape (rgb b) =
             [frame_height (fs_color frames), frame_width (fs_color frames), 3] \<and>
           shape (aligned_depth b) =
             [frame_height (fs_color frames), frame_width (fs_color frames), 1] \<and>
           length (elems (aligned_depth b)) =
             frame_height (fs_color frames) * frame_width (fs_color frames)"
proof -
  obtain p k aligned where cam: "pipeline cam = Some p" "scale cam = Some k"
    and aligned: "wait_and_align reproject reply = Inr aligned"
    using get_image_bundle_Inr [OF assms] by blast
  obtain frames where frames: "reply = Inr frames" "aligned = align_process reproject frames"
    using wait_and_align_Inr [OF aligned] by blast
  have "b = \<lparr>rgb = get_data RGB8 (color_frame aligned),
             aligned_depth =
               \<lparr>shape = [frame_height (aligned_depth_frame aligned),
                         frame_width (aligned_depth_frame aligned), 1],
                elems = map (\<lambda>raw. multiply np (float32 np raw) k)
                          (frame_data (aligned_depth_frame aligned))\<rparr>\<rparr>"
    using assms get_image_bundle_ok [OF cam, of np aligned] aligned by simp
  moreover have "length (frame_data (aligned_depth_frame aligned)) =
      frame_height (fs_color frames) * frame_width (fs_color frames)"
    using frames(2) length_aligned_depth by simp
  ultimately show ?thesis
    using frames by (simp add: align_process_def)
qed

theorem bundle_shapes_witness:
  "frame_height (fs_depth frames_raw) = 2 \<and> frame_width (fs_depth frames_raw) = 1 \<and>
   frame_height (fs_color frames_raw) = 1 \<and> frame_width (fs_color frames_raw) = 2 \<and>
   get_image_bundle np_real cam_streaming (wait_and_align same_cell (Inr frames_raw)) =
     Inr \<lparr>rgb = \<lparr>shape = [1, 2, 3], elems = [10, 20, 30, 40, 50, 60]\<rparr>,
          aligned_depth = \<lparr>shape = [1, 2, 1], elems = [2, 0]\<rparr>\<rparr>"
  using bundle_shapes [of np_real cam_streaming same_cell "Inr frames_raw"
      "\<lparr>rgb = \<lparr>shape = [1, 2, 3], elems = [10, 20, 30, 40, 50, 60]\<rparr>,
        aligned_depth = \<lparr>shape = [1, 2, 1], elems = [2, 0]\<rparr>\<rparr>"]
  by (simp add: example_defs bundle_defs frames_raw_def same_cell_def wait_and_align_def
      align_process_def upt_rec)

text \<open>
  Claim C6. Every acquisition attempted on a camera on which no \<^verbatim>\<open>connect\<close> has returned
  normally fails, whatever the driver answers: this failure for want of a connection is
  what the specification calls the kind not connected, a kind named by its trigger. In every
  history of calls since construction without a successful \<^verbatim>\<open>connect\<close>, the exception
  is the one of the attribute access on the pipeline, which is \<open>None\<close>, as long as no
  \<^verbatim>\<open>connect\<close> found a device; once a \<^verbatim>\<open>connect\<close> found one and failed to start the pipeline,
  it is the exception of the driver, or the one of the multiplication by the scale, which is
  still \<open>None\<close>. The class has no operation that closes a connection.
\<close>

theorem acquire_without_connection:
  assumes "no_successful_connect np (init did w h f) cs"
  shows "isl (get_image_bundle np (run np (init did w h f) cs) reply) \<and>
         get_image_bundle np (run np (init did w h f) cs) reply =
           (if pipeline_created cs
            then (case reply of
                    Inl e \<Rightarrow> Inl (DriverError e)
                  | Inr frames \<Rightarrow> Inl ScaleIsNone)
            else Inl PipelineIsNone)"
proof -
  have "scale (run np (init did w h f) cs) = None"
    using run_scale_unconnected [OF assms] by (simp add: init_def)
  moreover have "pipeline (run np (init did w h f) cs) =
      (if pipeline_created cs then Some Pipeline else None)"
    using run_pipeline [of np "init did w h f" cs] by (simp add: init_def)
  ultimately show ?thesis
    by (simp add: get_image_bundle_def Let_def split: sum.splits)
qed

theorem acquire_without_connection_witness:
  "no_successful_connect np_real cam_default
     [CallConnect drv_none, CallGetImageBundle (Inr frames_1x2)] \<and>
   get_image_bundle np_real
     (run np_real cam_default [CallConnect drv_none, CallGetImageBundle (Inr frames_1x2)])
     (Inr frames_1x2) = Inl PipelineIsNone \<and>
   no_successful_connect np_real cam_default [CallConnect drv_none, CallConnect drv_busy] \<and>
   fst (connect drv_busy cam_default) = Inl (ConnectionFailed ''busy'') \<and>
   get_image_bundle np_real
     (run np_real cam_default [CallConnect drv_none, CallConnect drv_busy])
     (Inl ''wait_for_frames cannot be called before start()'') =
     Inl (DriverError ''wait_for_frames cannot be called before start()'') \<and>
   get_image_bundle np_real
     (run np_real cam_default [CallConnect drv_none, CallConnect drv_busy])
     (Inr frames_1x2) = Inl ScaleIsNone"
  using acquire_without_connection [of np_real None 640 480 30
      "[CallConnect drv_none, CallGetImageBundle (Inr frames_1x2)]" "Inr frames_1x2"]
    acquire_without_connection [of np_real None 640 480 30
      "[CallConnect drv_none, CallConnect drv_busy]"
      "Inl ''wait_for_frames cannot be called before start()''"]
  by (simp add: example_defs connect_defs bundle_defs)

subsection \<open>What the calls change in the object\<close>

text \<open>
  Claim C4, as the code has it. No sequence of calls changes the width, the height or the
  frame rate given at construction. The identifier is assigned by \<^verbatim>\<open>connect\<close> alone: when
  devices are attached and the identifier is unset or is not the serial of any of them, it
  becomes the serial of the device at index 0; otherwise, and in every other call, it keeps
  its value.
\<close>

theorem config_fields_over_calls:
  "width (run np cam cs) = width cam \<and> height (run np cam cs) = height cam \<and>
   fps (run np cam cs) = fps cam \<and>
   device_id (snd (step np cam c)) = device_id_after cam c"
proof -
  have "width (run np cam cs) = width cam \<and> height (run np cam cs) = height cam \<and>
        fps (run np cam cs) = fps cam"
  proof (induction cs arbitrary: cam)
    case Nil
    show ?case by simp
  next
    case (Cons a cs)
    show ?case using Cons [of "snd (step np cam a)"] step_fields [of np cam a] by simp
  qed
  then show ?thesis using step_fields [of np cam c] by simp
qed

theorem config_fields_over_calls_witness:
  "width (run np_real (init (Some ''222'') 640 480 30 :: (unit, real) camera)
      [CallConnect drv_two, CallGetImageBundle (Inr frames_1x2)]) = 640 \<and>
   height (run np_real (init (Some ''222'') 640 480 30 :: (unit, real) camera)
      [CallConnect drv_two, CallGetImageBundle (Inr frames_1x2)]) = 480 \<and>
   fps (run np_real (init (Some ''222'') 640 480 30 :: (unit, real) camera)
      [CallConnect drv_two, CallGetImageBundle (Inr frames_1x2)]) = 30 \<and>
   device_id (snd (step np_real (init (Some ''222'') 640 480 30 :: (unit, real) camera)
      (CallConnect drv_two))) = Some ''222''"
  using config_fields_over_calls [of np_real "init (Some ''222'') 640 480 30"
      "[CallConnect drv_two, CallGetImageBundle (Inr frames_1x2)]" "CallConnect drv_two"]
  by (simp add: example_defs connect_defs)

text \<open>
  The claim as stated fails for the identifier: \<^verbatim>\<open>connect\<close> overwrites it when it was not
  given (line 36) and when it names no attached device (line 43).
\<close>

theorem device_id_overwritten_counterexample:
  "device_id cam_default = None \<and>
   device_id (fst (snd (connect drv_one cam_default))) = Some ''111'' \<and>
   device_id (init (Some ''999'') 640 480 30 :: (unit, real) camera) = Some ''999'' \<and>
   device_id (fst (snd (connect drv_one (init (Some ''999'') 640 480 30)))) = Some ''111''"
  by (simp add: example_defs connect_defs)

text \<open>
  Claim C9, as the code has it. The class has no \<^verbatim>\<open>disconnect\<close>: its methods are
  \<^verbatim>\<open>get_available_devices\<close>, \<^verbatim>\<open>connect\<close>, \<^verbatim>\<open>get_image_bundle\<close> and \<^verbatim>\<open>plot_image_bundle\<close>, and none of
  them releases the pipeline. Once the pipeline field is set it stays set through every
  sequence of calls, and every call other than \<^verbatim>\<open>connect\<close> leaves the whole object as it
  was, connected or not.
\<close>

theorem pipeline_never_released:
  "(pipeline cam \<noteq> None \<longrightarrow> pipeline (run np cam cs) \<noteq> None) \<and>
   (\<not> is_connect c \<longrightarrow> snd (step np cam c) = cam)"
proof -
  have "pipeline cam \<noteq> None \<Longrightarrow> pipeline (run np cam cs) \<noteq> None"
  proof (induction cs arbitrary: cam)
    case Nil
    then show ?case by simp
  next
    case (Cons a cs)
    then have "pipeline (snd (step np cam a)) \<noteq> None"
      using step_fields [of np cam a] by simp
    then show ?case using Cons.IH by simp
  qed
  then show ?thesis by (simp add: step_not_connect)
qed

theorem pipeline_never_released_witness:
  "pipeline cam_streaming \<noteq> None \<and>
   pipeline (run np_real cam_streaming
     [CallGetImageBundle (Inl ''timeout''), CallConnect drv_busy, CallConnect drv_none]) =
     Some Pipeline \<and>
   \<not> is_connect (CallPlotImageBundle (Inr frames_1x2) :: (unit, real) call) \<and>
   snd (step np_real cam_streaming (CallPlotImageBundle (Inr frames_1x2))) = cam_streaming"
  using pipeline_never_released [of cam_streaming np_real
      "[CallGetImageBundle (Inl ''timeout''), CallConnect drv_busy, CallConnect drv_none]"
      "CallPlotImageBundle (Inr frames_1x2)"]
  by (simp add: example_defs connect_defs bundle_defs)

text \<open>
  The claim as stated fails: on a connected camera each of the four methods leaves the
  pipeline in place, so there is no call that releases it.
\<close>

theorem no_method_releases_pipeline_counterexample:
  "pipeline cam_streaming = Some Pipeline \<and>
   pipeline (snd (step np_real cam_streaming (CallGetAvailableDevices drv_one))) =
     Some Pipeline \<and>
   pipeline (snd (step np_real cam_streaming (CallConnect drv_none))) = Some Pipeline \<and>
   pipeline (snd (step np_real cam_streaming (CallConnect drv_busy))) = Some Pipeline \<and>
   pipeline (snd (step np_real cam_streaming (CallConnect drv_one))) = Some Pipeline \<and>
   pipeline (snd (step np_real cam_streaming (CallGetImageBundle (Inr frames_1x2)))) =
     Some Pipeline \<and>
   pipeline (snd (step np_real cam_streaming (CallPlotImageBundle (Inr frames_1x2)))) =
     Some Pipeline"
  by (simp add: example_defs connect_defs bundle_defs)

end
